theory Spec2Isabelle
  imports Main
begin

section \<open>Values and objects of the host language\<close>

text \<open>
  The hook factory of \<^verbatim>\<open>src/index.ts\<close> only moves values around: it never computes on
  them. A value is \<^verbatim>\<open>undefined\<close>, \<^verbatim>\<open>null\<close>, a boolean, a number (the numbers that occur
  are integral: a page, a stale time in milliseconds), a string, an array, an object or a
  reference to a function the factory never calls (an abort signal's handlers, a result's
  \<^verbatim>\<open>refetch\<close>), which is identified by its reference.

  An object is a map from property names to values. A property that is present with the
  value \<^verbatim>\<open>undefined\<close> (\<open>Some JUndefined\<close>) differs from an absent one (\<open>None\<close>): the
  spread operator copies the former.
\<close>

datatype jsval =
    JUndefined
  | JNull
  | JBool bool
  | JNum int
  | JStr string
  | JArr "jsval list"
  | JObj "string \<rightharpoonup> jsval"
  | JRef nat

type_synonym jsobj = "string \<rightharpoonup> jsval"

text \<open>
  The promise of an asynchronous function settles with an outcome: \<open>Inl e\<close> is a rejection
  with the thrown value \<open>e\<close> (any value can be thrown), \<open>Inr v\<close> a fulfilment.
\<close>

type_synonym outcome = "jsval + jsval"

text \<open>
  An asynchronous function acts on the world outside the program (the request function
  sends a request over the network), so each of its calls is observable: it is a function
  of its argument object and of the state \<open>'t\<close> of that world, and returns the outcome and
  the new state.
\<close>

type_synonym 't async = "jsobj \<Rightarrow> 't \<Rightarrow> outcome \<times> 't"

text \<open>
  A property of an options object is a plain value or an asynchronous function (the
  \<^verbatim>\<open>queryFn\<close> of the caching library).
\<close>

datatype 't field = Val jsval | Fn "'t async"

type_synonym 't options = "string \<rightharpoonup> 't field"

section \<open>The two configurations\<close>

text \<open>
  \<^verbatim>\<open>url\<close> is declared as a function of the input, and the hook tests
  \<^verbatim>\<open>typeof url === "string"\<close> first, so both forms are modelled.
\<close>

datatype url_option = UrlString string | UrlFn "jsval \<Rightarrow> string"

text \<open>
  \<^verbatim>\<open>FactoryOptions\<close>, as the parameter pattern
  \<^verbatim>\<open>{ url, queryFn, defaultParams, ...factoryQueryOptions }\<close> takes it apart. A missing
  \<^verbatim>\<open>defaultParams\<close> reads as \<open>JUndefined\<close>.
\<close>

record 't factory_options =
  url :: url_option
  queryFn :: "'t async"
  defaultParams :: jsval
  factoryQueryOptions :: "'t options"

text \<open>
  \<^verbatim>\<open>InstanceOptions\<close>, as the parameter pattern
  \<^verbatim>\<open>{ input, params, axiosConfig, ...instanceQueryOptions }\<close> takes it apart. A missing
  \<^verbatim>\<open>params\<close> reads as \<open>JUndefined\<close>, a missing \<^verbatim>\<open>axiosConfig\<close> is \<open>None\<close>.
\<close>

record 't instance_options =
  input :: jsval
  params :: jsval
  axiosConfig :: "jsobj option"
  instanceQueryOptions :: "'t options"

section \<open>The hook\<close>

text \<open>\<^verbatim>\<open>a ?? b\<close> yields \<^verbatim>\<open>b\<close> exactly when \<^verbatim>\<open>a\<close> is \<^verbatim>\<open>undefined\<close> or \<^verbatim>\<open>null\<close>.\<close>

fun nullish :: "jsval \<Rightarrow> bool" where
  "nullish JUndefined = True"
| "nullish JNull = True"
| "nullish _ = False"

definition coalesce :: "jsval \<Rightarrow> jsval \<Rightarrow> jsval" where
  "coalesce a b = (if nullish a then b else a)"

text \<open>Spreading an optional object: \<^verbatim>\<open>...undefined\<close> contributes no property.\<close>

definition spread :: "jsobj option \<Rightarrow> jsobj" where
  "spread cfg = (case cfg of None \<Rightarrow> Map.empty | Some m \<Rightarrow> m)"

text \<open>\<^verbatim>\<open>const requestUrl = typeof url === "string" ? url : url(input)\<close>\<close>

definition requestUrl :: "'t factory_options \<Rightarrow> 'u instance_options \<Rightarrow> string" where
  "requestUrl f c = (case url f of UrlString u \<Rightarrow> u | UrlFn g \<Rightarrow> g (input c))"

text \<open>
  \<^verbatim>\<open>params = params ?? defaultParams\<close>: the value of \<^verbatim>\<open>params\<close> that every later line
  reads.
\<close>

definition effectiveParams :: "'t factory_options \<Rightarrow> 'u instance_options \<Rightarrow> jsval" where
  "effectiveParams f c = coalesce (params c) (defaultParams f)"

text \<open>\<^verbatim>\<open>const queryKey = ["GET", requestUrl, params]\<close>\<close>

definition queryKey :: "'t factory_options \<Rightarrow> 'u instance_options \<Rightarrow> jsval" where
  "queryKey f c = JArr [JStr ''GET'', JStr (requestUrl f c), effectiveParams f c]"

text \<open>
  The \<^verbatim>\<open>axiosConfig\<close> property of the request function's argument:
  \<^verbatim>\<open>{ ...axiosConfig, url: requestUrl, method: "GET", params }\<close>
\<close>

definition requestAxiosConfig :: "'t factory_options \<Rightarrow> 'u instance_options \<Rightarrow> jsobj" where
  "requestAxiosConfig f c =
     (spread (axiosConfig c))
       (''url'' \<mapsto> JStr (requestUrl f c),
        ''method'' \<mapsto> JStr ''GET'',
        ''params'' \<mapsto> effectiveParams f c)"

text \<open>
  The argument of the request function:
  \<^verbatim>\<open>{ input, params, axiosConfig: {...}, ...queryFnArgs }\<close>, where \<^verbatim>\<open>queryFnArgs\<close> is the
  context object that the caching library hands to the query function.
\<close>

definition requestArgs ::
  "'t factory_options \<Rightarrow> 'u instance_options \<Rightarrow> jsobj \<Rightarrow> jsobj" where
  "requestArgs f c queryFnArgs =
     [''input'' \<mapsto> input c,
      ''params'' \<mapsto> effectiveParams f c,
      ''axiosConfig'' \<mapsto> JObj (requestAxiosConfig f c)] ++ queryFnArgs"

text \<open>
  \<^verbatim>\<open>async (queryFnArgs) => { return await queryFn({...}); }\<close>: one call of the request
  function and no \<^verbatim>\<open>try\<close>, so the wrapper acts on the world and settles as that one call
  does.
\<close>

definition wrappedQueryFn :: "'t factory_options \<Rightarrow> 'u instance_options \<Rightarrow> 't async" where
  "wrappedQueryFn f c queryFnArgs t = queryFn f (requestArgs f c queryFnArgs) t"

text \<open>
  The object literal handed to \<^verbatim>\<open>useQuery\<close>:
  \<^verbatim>\<open>{ refetchOnWindowFocus: false, ...factoryQueryOptions, ...instanceQueryOptions,
      queryKey, queryFn: async (queryFnArgs) => ... }\<close>
\<close>

definition useQueryOptions :: "'t factory_options \<Rightarrow> 't instance_options \<Rightarrow> 't options" where
  "useQueryOptions f c =
     ([''refetchOnWindowFocus'' \<mapsto> Val (JBool False)]
        ++ factoryQueryOptions f
        ++ instanceQueryOptions c)
       (''queryKey'' \<mapsto> Val (queryKey f c),
        ''queryFn'' \<mapsto> Fn (wrappedQueryFn f c))"

text \<open>
  \<^verbatim>\<open>useQuery\<close> belongs to the caching library, so it is a parameter: a function of the
  options object that reads and updates the library's cache \<open>'s\<close> and returns a result
  object. The hook returns \<^verbatim>\<open>{ ...query, queryKey }\<close>.
\<close>

type_synonym ('t, 's) use_query = "'t options \<Rightarrow> 's \<Rightarrow> 't options \<times> 's"

definition createQueryHook ::
  "('t, 's) use_query \<Rightarrow> 't factory_options \<Rightarrow> 't instance_options \<Rightarrow> 's
     \<Rightarrow> 't options \<times> 's" where
  "createQueryHook useQuery f c s =
     (case useQuery (useQueryOptions f c) s of
        (query, s') \<Rightarrow> (query(''queryKey'' \<mapsto> Val (queryKey f c)), s'))"

section \<open>Example configurations\<close>

text \<open>
  Concrete configurations on which the results below are exercised. The first pair is the
  todo-list endpoint (\<^verbatim>\<open>url: () => GetTodos.url\<close>, no default parameters) called with
  \<^verbatim>\<open>input: null\<close> and \<^verbatim>\<open>params: { page: 2 }\<close>; its request function here always
  succeeds with an empty list. The state of the world in the examples is the number of
  requests sent so far.
\<close>

definition todosFactory :: "nat factory_options" where
  "todosFactory =
     \<lparr>url = UrlFn (\<lambda>_. ''/todos''),
      queryFn = (\<lambda>args n. (Inr (JObj [''todos'' \<mapsto> JArr []]), Suc n)),
      defaultParams = JUndefined,
      factoryQueryOptions = Map.empty\<rparr>"

definition todosCall :: "nat instance_options" where
  "todosCall =
     \<lparr>input = JNull,
      params = JObj [''page'' \<mapsto> JNum 2],
      axiosConfig = None,
      instanceQueryOptions = Map.empty\<rparr>"

text \<open>
  The second pair is the single-todo endpoint (\<^verbatim>\<open>url: ({slug}) => `/todos/${slug}`\<close>,
  \<^verbatim>\<open>defaultParams: { verbose: true }\<close>) with a stale time of five minutes, called with
  \<^verbatim>\<open>input: { slug: "x" }\<close>, no parameters, a stale time of zero and a transport
  configuration that tries to set \<^verbatim>\<open>url\<close>. Its request function here always fails with
  a transport error carrying the status code 404.

  \<open>slugOf\<close> is the text that the template prints for an input of the declared type
  \<^verbatim>\<open>{ slug: string }\<close>, and \<^verbatim>\<open>undefined\<close> for an object without a string \<^verbatim>\<open>slug\<close>. On
  \<^verbatim>\<open>null\<close> or \<^verbatim>\<open>undefined\<close> the source's parameter pattern throws, and a \<^verbatim>\<open>slug\<close> that
  is not a string is printed by the template: the single-todo endpoint is used below on
  inputs of the declared type only.
\<close>

definition slugOf :: "jsval \<Rightarrow> string" where
  "slugOf v =
     (case v of
        JObj m \<Rightarrow> (case m ''slug'' of Some (JStr s) \<Rightarrow> s | _ \<Rightarrow> ''undefined'')
      | _ \<Rightarrow> ''undefined'')"

definition notFound :: jsval where
  "notFound = JObj [''statusCode'' \<mapsto> JNum 404]"

definition todoFactory :: "nat factory_options" where
  "todoFactory =
     \<lparr>url = UrlFn (\<lambda>i. ''/todos/'' @ slugOf i),
      queryFn = (\<lambda>args n. (Inl notFound, Suc n)),
      defaultParams = JObj [''verbose'' \<mapsto> JBool True],
      factoryQueryOptions = [''staleTime'' \<mapsto> Val (JNum 300000)]\<rparr>"

definition todoCall :: "nat instance_options" where
  "todoCall =
     \<lparr>input = JObj [''slug'' \<mapsto> JStr ''x''],
      params = JUndefined,
      axiosConfig = Some [''timeout'' \<mapsto> JNum 1000, ''url'' \<mapsto> JStr ''/elsewhere''],
      instanceQueryOptions = [''staleTime'' \<mapsto> Val (JNum 0)]\<rparr>"



text \<open>
  A stand-in for the caching library in the closed instances. It is not a model of the
  library; it does what the library does in three respects. It runs the query function of
  its options on the context \<open>ctx\<close>, here once; it reports a fulfilment in \<^verbatim>\<open>data\<close> and a
  rejection in \<^verbatim>\<open>error\<close>; and the \<^verbatim>\<open>data\<close> of a query that failed is the
  \<^verbatim>\<open>initialData\<close> of its options when they have one. Its state is the state of the world
  that the query function acts on.
\<close>

definition settleOnce :: "jsobj \<Rightarrow> ('t, 't) use_query" where
  "settleOnce ctx opts t =
     (case opts ''queryFn'' of
        Some (Fn w) \<Rightarrow>
          (case w ctx t of
             (Inl e, t') \<Rightarrow>
               ((case opts ''initialData'' of
                   None \<Rightarrow> [''isLoading'' \<mapsto> Val (JBool False), ''error'' \<mapsto> Val e]
                 | Some d \<Rightarrow>
                     [''isLoading'' \<mapsto> Val (JBool False), ''error'' \<mapsto> Val e, ''data'' \<mapsto> d]),
                t')
           | (Inr d, t') \<Rightarrow>
               ([''isLoading'' \<mapsto> Val (JBool False), ''data'' \<mapsto> Val d], t'))
      | _ \<Rightarrow> (Map.empty, t))"

section \<open>Helper facts\<close>

lemma coalesce_cases:
  "coalesce a b = (if a = JUndefined \<or> a = JNull then b else a)"
  by (cases a) (simp_all add: coalesce_def)

lemma createQueryHook_fst:
  "fst (createQueryHook useQuery f c s) =
     (fst (useQuery (useQueryOptions f c) s))(''queryKey'' \<mapsto> Val (queryKey f c))"
  by (simp add: createQueryHook_def split: prod.split)

lemma createQueryHook_snd:
  "snd (createQueryHook useQuery f c s) = snd (useQuery (useQueryOptions f c) s)"
  by (simp add: createQueryHook_def split: prod.split)

lemma useQueryOptions_queryKey:
  "useQueryOptions f c ''queryKey'' = Some (Val (queryKey f c))"
  by (simp add: useQueryOptions_def)

lemma useQueryOptions_queryFn:
  "useQueryOptions f c ''queryFn'' = Some (Fn (wrappedQueryFn f c))"
  by (simp add: useQueryOptions_def)

lemma queryKey_cong:
  "input c = input c' \<Longrightarrow> params c = params c' \<Longrightarrow> queryKey f c = queryKey f c'"
  by (cases "url f") (simp_all add: queryKey_def requestUrl_def effectiveParams_def)

lemma requestUrl_todosCall: "requestUrl todosFactory todosCall = ''/todos''"
  by (simp add: requestUrl_def todosFactory_def)

lemma effectiveParams_todosCall:
  "effectiveParams todosFactory todosCall = JObj [''page'' \<mapsto> JNum 2]"
  by (simp add: effectiveParams_def coalesce_def todosCall_def)

lemma queryKey_todosCall:
  "queryKey todosFactory todosCall =
     JArr [JStr ''GET'', JStr ''/todos'', JObj [''page'' \<mapsto> JNum 2]]"
  by (simp add: queryKey_def requestUrl_todosCall effectiveParams_todosCall)

lemma requestUrl_todoCall: "requestUrl todoFactory todoCall = ''/todos/x''"
  by (simp add: requestUrl_def todoFactory_def todoCall_def slugOf_def)


lemma settleOnce_todosCall:
  "settleOnce Map.empty (useQueryOptions todosFactory todosCall) 0 =
     ([''isLoading'' \<mapsto> Val (JBool False),
       ''data'' \<mapsto> Val (JObj [''todos'' \<mapsto> JArr []])], 1)"
  by (simp add: settleOnce_def useQueryOptions_queryFn wrappedQueryFn_def todosFactory_def
        useQueryOptions_def todosCall_def)

section \<open>The cache key\<close>

text \<open>
  Claim C1. The \<^verbatim>\<open>queryKey\<close> property of the options object that \<^verbatim>\<open>useQuery\<close> receives
  is the array \<^verbatim>\<open>["GET", requestUrl, params]\<close> of exactly three elements, in this order,
  whatever the configurations are: a \<^verbatim>\<open>useQuery\<close> that records the options it is called
  with records exactly one object, with this key. Two keys are equal exactly when the
  resolved URLs and the effective parameters are equal (the verb is the constant
  \<^verbatim>\<open>"GET"\<close> in every key), and a key equals an array of a verb, a URL and parameters
  exactly when all three are its own: a difference in any of the three is a different key.
\<close>

theorem queryKey_is_verb_url_params:
  "useQueryOptions f c ''queryKey'' =
      Some (Val (JArr [JStr ''GET'', JStr (requestUrl f c), effectiveParams f c]))
   \<and> map (\<lambda>opts. opts ''queryKey'')
         (snd (createQueryHook (\<lambda>opts calls. (res, calls @ [opts])) f c []))
        = [Some (Val (JArr [JStr ''GET'', JStr (requestUrl f c), effectiveParams f c]))]
   \<and> ((queryKey f c = queryKey f' c') =
        (requestUrl f c = requestUrl f' c' \<and> effectiveParams f c = effectiveParams f' c'))
   \<and> ((queryKey f c = JArr [JStr verb, JStr u, p]) =
        (verb = ''GET'' \<and> u = requestUrl f c \<and> p = effectiveParams f c))"
  by (auto simp add: useQueryOptions_queryKey createQueryHook_snd queryKey_def)

theorem queryKey_is_verb_url_params_witness:
  "useQueryOptions todosFactory todosCall ''queryKey'' =
      Some (Val (JArr [JStr ''GET'', JStr ''/todos'', JObj [''page'' \<mapsto> JNum 2]]))
   \<and> queryKey todosFactory todosCall \<noteq> queryKey todoFactory todoCall"
  using queryKey_is_verb_url_params [of todosFactory todosCall Map.empty todoFactory todoCall]
  by (simp add: requestUrl_todoCall requestUrl_todosCall effectiveParams_todosCall)

section \<open>Effective parameters\<close>

text \<open>
  Claim C2. The effective parameters are the call-site \<^verbatim>\<open>params\<close> when the call site
  provides a value for them (one that \<^verbatim>\<open>??\<close> does not skip: neither \<^verbatim>\<open>undefined\<close> nor
  \<^verbatim>\<open>null\<close>; the declared type of \<^verbatim>\<open>params\<close> is a record or \<^verbatim>\<open>undefined\<close>), otherwise
  the factory's \<^verbatim>\<open>defaultParams\<close>, which is \<^verbatim>\<open>undefined\<close> when the factory declares
  none. They are always one of the two values as a whole, never an object assembled from
  properties of both.
\<close>

theorem effectiveParams_precedence:
  "(params c = JObj m \<longrightarrow> effectiveParams f c = JObj m)
   \<and> (\<not> nullish (params c) \<longrightarrow> effectiveParams f c = params c)
   \<and> (nullish (params c) \<longrightarrow> effectiveParams f c = defaultParams f)
   \<and> (params c = JUndefined \<and> defaultParams f = JUndefined \<longrightarrow> effectiveParams f c = JUndefined)
   \<and> (effectiveParams f c = params c \<or> effectiveParams f c = defaultParams f)"
  by (simp add: effectiveParams_def coalesce_def)

theorem effectiveParams_precedence_witness:
  "\<not> nullish (params todosCall)
   \<and> effectiveParams todosFactory todosCall = JObj [''page'' \<mapsto> JNum 2]
   \<and> effectiveParams todoFactory (todoCall\<lparr>params := JObj [''verbose'' \<mapsto> JBool False]\<rparr>)
        = JObj [''verbose'' \<mapsto> JBool False]
   \<and> nullish (params todoCall)
   \<and> effectiveParams todoFactory todoCall = JObj [''verbose'' \<mapsto> JBool True]
   \<and> params (todosCall\<lparr>params := JUndefined\<rparr>) = JUndefined
   \<and> defaultParams todosFactory = JUndefined
   \<and> effectiveParams todosFactory (todosCall\<lparr>params := JUndefined\<rparr>) = JUndefined"
proof -
  have p: "params todosCall = JObj [''page'' \<mapsto> JNum 2]"
    by (simp add: todosCall_def)
  have q: "params (todoCall\<lparr>params := JObj [''verbose'' \<mapsto> JBool False]\<rparr>)
             = JObj [''verbose'' \<mapsto> JBool False]"
    by simp
  have n: "params todoCall = JUndefined"
    by (simp add: todoCall_def)
  have d: "defaultParams todoFactory = JObj [''verbose'' \<mapsto> JBool True]"
    by (simp add: todoFactory_def)
  have d': "defaultParams todosFactory = JUndefined"
    by (simp add: todosFactory_def)
  from effectiveParams_precedence [of todosCall "[''page'' \<mapsto> JNum 2]" todosFactory] p
  have a: "effectiveParams todosFactory todosCall = JObj [''page'' \<mapsto> JNum 2]"
    by simp
  from effectiveParams_precedence
         [of "todoCall\<lparr>params := JObj [''verbose'' \<mapsto> JBool False]\<rparr>"
             "[''verbose'' \<mapsto> JBool False]" todoFactory] q
  have b: "effectiveParams todoFactory (todoCall\<lparr>params := JObj [''verbose'' \<mapsto> JBool False]\<rparr>)
             = JObj [''verbose'' \<mapsto> JBool False]"
    by simp
  from effectiveParams_precedence [of todoCall Map.empty todoFactory] n d
  have e: "effectiveParams todoFactory todoCall = JObj [''verbose'' \<mapsto> JBool True]"
    by simp
  from effectiveParams_precedence [of "todosCall\<lparr>params := JUndefined\<rparr>" Map.empty todosFactory] d'
  have u: "effectiveParams todosFactory (todosCall\<lparr>params := JUndefined\<rparr>) = JUndefined"
    by simp
  from a b e u p n d' show ?thesis by simp
qed

text \<open>
  Claim C10. A call site that passes \<^verbatim>\<open>params: null\<close> gets the factory's
  \<^verbatim>\<open>defaultParams\<close> as effective parameters, in the cache key and in the transport
  configuration, exactly as if it had omitted \<^verbatim>\<open>params\<close>: \<^verbatim>\<open>null\<close> does not clear the
  defaults.
\<close>

theorem null_params_fall_back_to_defaultParams:
  "params c = JNull \<Longrightarrow>
     effectiveParams f c = defaultParams f
     \<and> effectiveParams f c = effectiveParams f (c\<lparr>params := JUndefined\<rparr>)
     \<and> queryKey f c = JArr [JStr ''GET'', JStr (requestUrl f c), defaultParams f]
     \<and> requestAxiosConfig f c ''params'' = Some (defaultParams f)"
  by (simp add: effectiveParams_def coalesce_def queryKey_def requestAxiosConfig_def)

theorem null_params_fall_back_to_defaultParams_witness:
  "params (todoCall\<lparr>params := JNull\<rparr>) = JNull
   \<and> effectiveParams todoFactory (todoCall\<lparr>params := JNull\<rparr>)
        = JObj [''verbose'' \<mapsto> JBool True]
   \<and> queryKey todoFactory (todoCall\<lparr>params := JNull\<rparr>)
        = JArr [JStr ''GET'', JStr ''/todos/x'', JObj [''verbose'' \<mapsto> JBool True]]"
proof -
  have n: "params (todoCall\<lparr>params := JNull\<rparr>) = JNull"
    by simp
  have u: "requestUrl todoFactory (todoCall\<lparr>params := JNull\<rparr>) = ''/todos/x''"
    by (simp add: requestUrl_def todoFactory_def todoCall_def slugOf_def)
  have d: "defaultParams todoFactory = JObj [''verbose'' \<mapsto> JBool True]"
    by (simp add: todoFactory_def)
  from null_params_fall_back_to_defaultParams [OF n, of todoFactory] n u d
  show ?thesis by simp
qed

section \<open>The resolved URL\<close>

text \<open>
  Claim C4. When \<^verbatim>\<open>url\<close> is a function, the resolved URL is that function applied to the
  call-site input, for every input; when \<^verbatim>\<open>url\<close> is a string, the resolved URL is that
  string, whatever the input is. The transport configuration's \<^verbatim>\<open>url\<close> is the resolved
  URL in both cases.
\<close>

theorem requestUrl_resolution:
  "(url f = UrlFn g \<longrightarrow>
      requestUrl f c = g (input c)
      \<and> requestAxiosConfig f c ''url'' = Some (JStr (g (input c))))
   \<and> (url f = UrlString u \<longrightarrow>
      requestUrl f c = u
      \<and> requestAxiosConfig f c ''url'' = Some (JStr u))"
  by (simp add: requestUrl_def requestAxiosConfig_def)

theorem requestUrl_resolution_witness:
  "requestUrl todoFactory todoCall = ''/todos/x''
   \<and> requestAxiosConfig todoFactory todoCall ''url'' = Some (JStr ''/todos/x'')
   \<and> requestUrl (todoFactory\<lparr>url := UrlString ''/todos''\<rparr>) todoCall = ''/todos''
   \<and> requestUrl (todoFactory\<lparr>url := UrlString ''/todos''\<rparr>) todosCall = ''/todos''"
proof -
  have g: "url todoFactory = UrlFn (\<lambda>i. ''/todos/'' @ slugOf i)"
    by (simp add: todoFactory_def)
  have x: "''/todos/'' @ slugOf (input todoCall) = ''/todos/x''"
    by (simp add: todoCall_def slugOf_def)
  have u: "url (todoFactory\<lparr>url := UrlString ''/todos''\<rparr>) = UrlString ''/todos''"
    by simp
  from requestUrl_resolution [of todoFactory "\<lambda>i. ''/todos/'' @ slugOf i" todoCall] g x
  have a: "requestUrl todoFactory todoCall = ''/todos/x''
           \<and> requestAxiosConfig todoFactory todoCall ''url'' = Some (JStr ''/todos/x'')"
    by simp
  from requestUrl_resolution
         [where f = "todoFactory\<lparr>url := UrlString ''/todos''\<rparr>" and c = todoCall
            and u = "''/todos''" and g = "\<lambda>i. []"] u
  have b: "requestUrl (todoFactory\<lparr>url := UrlString ''/todos''\<rparr>) todoCall = ''/todos''"
    by simp
  from requestUrl_resolution
         [where f = "todoFactory\<lparr>url := UrlString ''/todos''\<rparr>" and c = todosCall
            and u = "''/todos''" and g = "\<lambda>i. []"] u
  have b': "requestUrl (todoFactory\<lparr>url := UrlString ''/todos''\<rparr>) todosCall = ''/todos''"
    by simp
  from a b b' show ?thesis by simp
qed

section \<open>The options handed to the caching library\<close>

text \<open>
  Claim C3. On every call the hook hands \<^verbatim>\<open>useQuery\<close> one options object (a
  \<^verbatim>\<open>useQuery\<close> that records the objects it is called with records exactly one), and for
  every option of the caching library that the configurations may carry (their types omit
  \<^verbatim>\<open>queryKey\<close> and \<^verbatim>\<open>queryFn\<close>, which the hook sets itself) the value in that object is
  the call-site value when the call site has the property, otherwise the factory's value
  when the factory has it, otherwise the built-in default, which exists for
  \<^verbatim>\<open>refetchOnWindowFocus\<close> only and is \<^verbatim>\<open>false\<close>. The override is of whole property
  values. In particular a factory \<^verbatim>\<open>staleTime\<close> of 300000 and a call-site \<^verbatim>\<open>staleTime\<close>
  of 0 give 0. For any \<^verbatim>\<open>useQuery\<close>, what the hook does to the library's state is what
  \<^verbatim>\<open>useQuery\<close> does on that options object.
\<close>

theorem useQueryOptions_precedence:
  "(k \<noteq> ''queryKey'' \<and> k \<noteq> ''queryFn'' \<longrightarrow>
      map (\<lambda>opts. opts k)
        (snd (createQueryHook (\<lambda>opts calls. (res, calls @ [opts])) f c []))
      = [case instanceQueryOptions c k of
           Some v \<Rightarrow> Some v
         | None \<Rightarrow>
             (case factoryQueryOptions f k of
                Some v \<Rightarrow> Some v
              | None \<Rightarrow>
                  if k = ''refetchOnWindowFocus'' then Some (Val (JBool False)) else None)])
   \<and> (factoryQueryOptions f ''staleTime'' = Some (Val (JNum 300000)) \<and>
      instanceQueryOptions c ''staleTime'' = Some (Val (JNum 0)) \<longrightarrow>
      map (\<lambda>opts. opts ''staleTime'')
        (snd (createQueryHook (\<lambda>opts calls. (res, calls @ [opts])) f c []))
      = [Some (Val (JNum 0))])
   \<and> snd (createQueryHook uq f c s) = snd (uq (useQueryOptions f c) s)
   \<and> (k \<noteq> ''queryKey'' \<and> k \<noteq> ''queryFn'' \<longrightarrow>
      useQueryOptions f c k =
        (case instanceQueryOptions c k of
           Some v \<Rightarrow> Some v
         | None \<Rightarrow>
             (case factoryQueryOptions f k of
                Some v \<Rightarrow> Some v
              | None \<Rightarrow>
                  if k = ''refetchOnWindowFocus'' then Some (Val (JBool False)) else None)))
   \<and> (factoryQueryOptions f ''staleTime'' = Some (Val (JNum 300000)) \<and>
      instanceQueryOptions c ''staleTime'' = Some (Val (JNum 0)) \<longrightarrow>
      useQueryOptions f c ''staleTime'' = Some (Val (JNum 0)))"
  by (simp add: createQueryHook_snd useQueryOptions_def map_add_def split: option.split)

theorem useQueryOptions_precedence_witness:
  "factoryQueryOptions todoFactory ''staleTime'' = Some (Val (JNum 300000))
   \<and> instanceQueryOptions todoCall ''staleTime'' = Some (Val (JNum 0))
   \<and> map (\<lambda>opts. opts ''staleTime'')
        (snd (createQueryHook (\<lambda>opts calls. (Map.empty, calls @ [opts])) todoFactory todoCall []))
      = [Some (Val (JNum 0))]
   \<and> map (\<lambda>opts. opts ''staleTime'')
        (snd (createQueryHook (\<lambda>opts calls. (Map.empty, calls @ [opts])) todoFactory
                (todoCall\<lparr>instanceQueryOptions := Map.empty\<rparr>) []))
      = [Some (Val (JNum 300000))]
   \<and> map (\<lambda>opts. opts ''refetchOnWindowFocus'')
        (snd (createQueryHook (\<lambda>opts calls. (Map.empty, calls @ [opts])) todoFactory todoCall []))
      = [Some (Val (JBool False))]"
proof -
  have fo: "factoryQueryOptions todoFactory = [''staleTime'' \<mapsto> Val (JNum 300000)]"
    by (simp add: todoFactory_def)
  have io: "instanceQueryOptions todoCall = [''staleTime'' \<mapsto> Val (JNum 0)]"
    by (simp add: todoCall_def)
  have io': "instanceQueryOptions (todoCall\<lparr>instanceQueryOptions := Map.empty\<rparr>) = Map.empty"
    by simp
  from useQueryOptions_precedence
         [where k = "''staleTime''" and f = todoFactory and c = todoCall and res = Map.empty
            and uq = "settleOnce Map.empty" and s = 0] fo io
  have a: "map (\<lambda>opts. opts ''staleTime'')
        (snd (createQueryHook (\<lambda>opts calls. (Map.empty, calls @ [opts])) todoFactory todoCall []))
      = [Some (Val (JNum 0))]"
    by simp
  from useQueryOptions_precedence
         [where k = "''staleTime''" and f = todoFactory
            and c = "todoCall\<lparr>instanceQueryOptions := Map.empty\<rparr>" and res = Map.empty
            and uq = "settleOnce Map.empty" and s = 0] fo io'
  have b: "map (\<lambda>opts. opts ''staleTime'')
        (snd (createQueryHook (\<lambda>opts calls. (Map.empty, calls @ [opts])) todoFactory
                (todoCall\<lparr>instanceQueryOptions := Map.empty\<rparr>) []))
      = [Some (Val (JNum 300000))]"
    by simp
  from useQueryOptions_precedence
         [where k = "''refetchOnWindowFocus''" and f = todoFactory and c = todoCall
            and res = Map.empty and uq = "settleOnce Map.empty" and s = 0] fo io
  have d: "map (\<lambda>opts. opts ''refetchOnWindowFocus'')
        (snd (createQueryHook (\<lambda>opts calls. (Map.empty, calls @ [opts])) todoFactory todoCall []))
      = [Some (Val (JBool False))]"
    by simp
  from a b d fo io show ?thesis by simp
qed

text \<open>
  Claim C9. Whatever the factory-level and the call-site option objects contain, a
  \<^verbatim>\<open>queryKey\<close> property of their own included, the hook hands \<^verbatim>\<open>useQuery\<close> one options
  object on every call (a \<^verbatim>\<open>useQuery\<close> that records the objects it is called with records
  exactly one) and the \<^verbatim>\<open>queryKey\<close> in it is the derived
  \<^verbatim>\<open>["GET", requestUrl, params]\<close>, since it is written after both spreads; the derived key
  does not depend on the option objects; and the \<^verbatim>\<open>queryKey\<close> of the hook's result, for
  any \<^verbatim>\<open>useQuery\<close>, is that same key.
\<close>

theorem queryKey_not_overridable:
  "map (\<lambda>opts. opts ''queryKey'')
     (snd (createQueryHook (\<lambda>opts calls. (res, calls @ [opts]))
            (f\<lparr>factoryQueryOptions := fo\<rparr>) (c\<lparr>instanceQueryOptions := io\<rparr>) []))
     = [Some (Val (JArr [JStr ''GET'', JStr (requestUrl f c), effectiveParams f c]))]
   \<and> useQueryOptions (f\<lparr>factoryQueryOptions := fo\<rparr>) (c\<lparr>instanceQueryOptions := io\<rparr>) ''queryKey''
      = Some (Val (JArr [JStr ''GET'', JStr (requestUrl f c), effectiveParams f c]))
   \<and> queryKey (f\<lparr>factoryQueryOptions := fo\<rparr>) (c\<lparr>instanceQueryOptions := io\<rparr>) = queryKey f c
   \<and> fst (createQueryHook uq (f\<lparr>factoryQueryOptions := fo\<rparr>) (c\<lparr>instanceQueryOptions := io\<rparr>) s)
        ''queryKey''
      = Some (Val (JArr [JStr ''GET'', JStr (requestUrl f c), effectiveParams f c]))
   \<and> snd (createQueryHook uq (f\<lparr>factoryQueryOptions := fo\<rparr>) (c\<lparr>instanceQueryOptions := io\<rparr>) s)
      = snd (uq (useQueryOptions (f\<lparr>factoryQueryOptions := fo\<rparr>)
                  (c\<lparr>instanceQueryOptions := io\<rparr>)) s)"
  by (simp add: createQueryHook_fst createQueryHook_snd useQueryOptions_queryKey queryKey_def
        requestUrl_def effectiveParams_def split: url_option.split)

theorem queryKey_not_overridable_witness:
  "map (\<lambda>opts. opts ''queryKey'')
     (snd (createQueryHook (\<lambda>opts calls. (Map.empty, calls @ [opts]))
            (todosFactory\<lparr>factoryQueryOptions := [''queryKey'' \<mapsto> Val (JStr ''mine'')]\<rparr>)
            (todosCall\<lparr>instanceQueryOptions := [''queryKey'' \<mapsto> Val (JArr [JStr ''other''])]\<rparr>)
            []))
    = [Some (Val (JArr [JStr ''GET'', JStr ''/todos'', JObj [''page'' \<mapsto> JNum 2]]))]
   \<and> fst (createQueryHook (settleOnce Map.empty)
            (todosFactory\<lparr>factoryQueryOptions := [''queryKey'' \<mapsto> Val (JStr ''mine'')]\<rparr>)
            (todosCall\<lparr>instanceQueryOptions := [''queryKey'' \<mapsto> Val (JArr [JStr ''other''])]\<rparr>)
            0) ''queryKey''
    = Some (Val (JArr [JStr ''GET'', JStr ''/todos'', JObj [''page'' \<mapsto> JNum 2]]))"
  using queryKey_not_overridable [where f = todosFactory
      and fo = "[''queryKey'' \<mapsto> Val (JStr ''mine'')]"
      and c = todosCall and io = "[''queryKey'' \<mapsto> Val (JArr [JStr ''other''])]"
      and res = Map.empty and uq = "settleOnce Map.empty" and s = 0]
  by (simp add: requestUrl_todosCall effectiveParams_todosCall)

section \<open>The call of the request function\<close>



section \<open>A failing request\<close>




section \<open>The result of the hook\<close>

text \<open>
  Claim C7. The object that the hook returns is the result of \<^verbatim>\<open>useQuery\<close> with the
  property \<^verbatim>\<open>queryKey\<close> set to the derived key (\<^verbatim>\<open>{ ...query, queryKey }\<close>): every
  property of the result of \<^verbatim>\<open>useQuery\<close> under another name is there unchanged (all of
  them when that result has no \<^verbatim>\<open>queryKey\<close> of its own, as the library's result type has
  none), the attached key is the key that \<^verbatim>\<open>useQuery\<close> received in its options for this
  call, and the hook changes the library's cache only through \<^verbatim>\<open>useQuery\<close>.
\<close>

theorem result_is_query_with_queryKey:
  "fst (createQueryHook uq f c s) =
      (fst (uq (useQueryOptions f c) s))(''queryKey'' \<mapsto> Val (queryKey f c))
   \<and> (k \<noteq> ''queryKey'' \<longrightarrow>
        fst (createQueryHook uq f c s) k = fst (uq (useQueryOptions f c) s) k)
   \<and> (fst (uq (useQueryOptions f c) s) ''queryKey'' = None \<longrightarrow>
        fst (uq (useQueryOptions f c) s) \<subseteq>\<^sub>m fst (createQueryHook uq f c s))
   \<and> fst (createQueryHook uq f c s) ''queryKey'' = useQueryOptions f c ''queryKey''
   \<and> fst (createQueryHook uq f c s) ''queryKey'' = Some (Val (queryKey f c))
   \<and> snd (createQueryHook uq f c s) = snd (uq (useQueryOptions f c) s)"
  by (auto simp add: createQueryHook_fst createQueryHook_snd useQueryOptions_queryKey map_le_def)

theorem result_is_query_with_queryKey_witness:
  "fst (createQueryHook (settleOnce Map.empty) todosFactory todosCall 0) ''data''
      = Some (Val (JObj [''todos'' \<mapsto> JArr []]))
   \<and> fst (createQueryHook (settleOnce Map.empty) todosFactory todosCall 0) ''isLoading''
      = Some (Val (JBool False))
   \<and> fst (createQueryHook (settleOnce Map.empty) todosFactory todosCall 0) ''queryKey''
      = Some (Val (JArr [JStr ''GET'', JStr ''/todos'', JObj [''page'' \<mapsto> JNum 2]]))
   \<and> snd (createQueryHook (settleOnce Map.empty) todosFactory todosCall 0) = 1"
  using result_is_query_with_queryKey
          [of "settleOnce Map.empty" todosFactory todosCall 0 "''data''"]
        result_is_query_with_queryKey
          [of "settleOnce Map.empty" todosFactory todosCall 0 "''isLoading''"]
  by (simp add: settleOnce_todosCall queryKey_todosCall)

text \<open>
  Claim C8. The cache key is a function of the factory configuration and of the call-site
  \<^verbatim>\<open>input\<close> and \<^verbatim>\<open>params\<close> alone: two calls that agree on these two have equal keys, in
  the options given to \<^verbatim>\<open>useQuery\<close> and in the hook's result, whatever the state of the
  library's cache and whatever \<^verbatim>\<open>useQuery\<close> does. In particular a second call with the same
  configuration, made in the state the first call left, returns the same key.
\<close>

theorem queryKey_deterministic:
  "(input c = input c' \<and> params c = params c' \<longrightarrow> queryKey f c = queryKey f c')
   \<and> (input c = input c' \<and> params c = params c' \<longrightarrow>
        fst (createQueryHook uq f c s) ''queryKey'' = fst (createQueryHook uq' f c' s') ''queryKey''
        \<and> useQueryOptions f c ''queryKey'' = useQueryOptions f c' ''queryKey'')
   \<and> fst (createQueryHook uq f c (snd (createQueryHook uq f c s))) ''queryKey''
        = fst (createQueryHook uq f c s) ''queryKey''"
  using queryKey_cong [of c c' f]
  by (simp add: createQueryHook_fst useQueryOptions_queryKey)

theorem queryKey_deterministic_witness:
  "snd (createQueryHook (settleOnce Map.empty) todosFactory todosCall 0) = 1
   \<and> fst (createQueryHook (settleOnce Map.empty) todosFactory todosCall 1) ''queryKey''
       = fst (createQueryHook (settleOnce Map.empty) todosFactory todosCall 0) ''queryKey''
   \<and> queryKey todosFactory todosCall
       = queryKey todosFactory
           (todosCall\<lparr>instanceQueryOptions := [''enabled'' \<mapsto> Val (JBool False)]\<rparr>)"
proof -
  have one: "snd (createQueryHook (settleOnce Map.empty) todosFactory todosCall 0) = 1"
    by (simp add: createQueryHook_snd settleOnce_todosCall)
  note inst = queryKey_deterministic [where c = todosCall
      and c' = "todosCall\<lparr>instanceQueryOptions := [''enabled'' \<mapsto> Val (JBool False)]\<rparr>"
      and f = todosFactory and uq = "settleOnce Map.empty" and s = 0
      and uq' = "settleOnce Map.empty" and s' = 0]
  from inst have again:
    "fst (createQueryHook (settleOnce Map.empty) todosFactory todosCall
            (snd (createQueryHook (settleOnce Map.empty) todosFactory todosCall 0))) ''queryKey''
       = fst (createQueryHook (settleOnce Map.empty) todosFactory todosCall 0) ''queryKey''"
    by (rule conjunct2 [THEN conjunct2])
  from inst have same:
    "queryKey todosFactory todosCall
       = queryKey todosFactory
           (todosCall\<lparr>instanceQueryOptions := [''enabled'' \<mapsto> Val (JBool False)]\<rparr>)"
    by simp
  from one again same show ?thesis by simp
qed

end
